theory Spec2Isabelle
  imports Main "HOL-Library.Word"
begin

unbundle bit_operations_syntax

section \<open>Communication driver for Xilinx FPGAs (Communication.c)\<close>

subsection \<open>Machine types, register map, peripheral\<close>

text \<open>
  \<^verbatim>\<open>u32\<close> is a 32-bit word, \<^verbatim>\<open>unsigned char\<close> an 8-bit word. Plain \<^verbatim>\<open>char\<close>, the
  result type of the SPI functions, is a signed 8-bit type: only then does \<^verbatim>\<open>return -1\<close>
  give the caller the documented \<open>-1\<close>. A result of type \<^verbatim>\<open>char\<close> is modelled by its
  value, an \<open>int\<close> from \<open>-128\<close> to \<open>127\<close>. \<^verbatim>\<open>return bytesNumber\<close> converts an
  \<^verbatim>\<open>unsigned char\<close> to \<^verbatim>\<open>char\<close>: the value keeps its 8 bits and is read as two's
  complement (\<open>sint\<close>), so that 128 to 255 come out as \<open>-128\<close> to \<open>-1\<close>.
\<close>

type_synonym u8 = "8 word"
type_synonym u32 = "32 word"

text \<open>
  The register offsets, base addresses and bit positions are macros of Communication.h.
  The model does not fix their values: they are parameters, every function takes the
  record \<open>c\<close> of these constants and uses them where the C text names the macro.
\<close>

record comm_consts =
  SPI_BASEADDR :: u32
  SPICR :: u32
  SPISR :: u32
  SPIDTR :: u32
  SPIDRR :: u32
  SPISSR :: u32
  SRR :: u32
  LSBFirst :: nat
  MasterTranInh :: nat
  ManualSlaveAssEn :: nat
  RxFifoReset :: nat
  TxFifoReset :: nat
  CHPA :: nat
  CPOL :: nat
  Master :: nat
  SPE :: nat
  LOOP :: nat
  I2C_BASEADDR :: u32
  CR :: u32
  SR :: u32
  TX_FIFO :: u32
  RX_FIFO :: u32
  RX_FIFO_PIRQ :: u32

text \<open>
  The calls to the collaborators, in program order: a register write with address and
  value, a register read with address and the value it returned, a delay.
\<close>

datatype io = Xil_Out32 u32 u32 | Xil_In32 u32 u32 | TIME_DelayMs nat

text \<open>
  The peripheral answers a register read. Its answer may depend on everything the driver
  did since the call started (the calls so far, oldest first) and on the address read.
  A peripheral with a history before the call is the function that has this history
  built in, so that every call starts from the empty list.
\<close>

type_synonym peripheral = "io list \<Rightarrow> u32 \<Rightarrow> u32"

text \<open>
  A buffer parameter is a bare pointer in C: the model is the memory it points to, as a
  function from the index to the byte stored there. The code checks no bound, so neither
  does the model; which indices belong to the caller's array is the caller's matter.
\<close>

type_synonym buffer = "nat \<Rightarrow> u8"

text \<open>
  What a call leaves behind: the returned value, the buffer, the calls made. The returned
  value has the type of the function's result: \<open>int\<close> for \<^verbatim>\<open>char\<close>, \<open>u8\<close> for
  \<^verbatim>\<open>unsigned char\<close>.
\<close>

record 'r result =
  ret :: 'r
  buf :: buffer
  trace :: "io list"

text \<open>The values read from one address, oldest first.\<close>

fun reads_of :: "u32 \<Rightarrow> io list \<Rightarrow> u32 list" where
  "reads_of a [] = []"
| "reads_of a (Xil_In32 a' v # es) = (if a' = a then v # reads_of a es else reads_of a es)"
| "reads_of a (Xil_Out32 a' v # es) = reads_of a es"
| "reads_of a (TIME_DelayMs n # es) = reads_of a es"

text \<open>The calls that are register reads.\<close>

fun is_read :: "io \<Rightarrow> bool" where
  "is_read (Xil_In32 a v) = True"
| "is_read (Xil_Out32 a v) = False"
| "is_read (TIME_DelayMs n) = False"

subsection \<open>SPI\_Init\<close>

text \<open>
  \<^verbatim>\<open>configValue\<close> is a file-level static: the model passes it in and returns it.
  The operands of \<^verbatim>\<open><<\<close> are promoted to \<^verbatim>\<open>int\<close>; the result is OR-ed into a
  \<^verbatim>\<open>u32\<close>, which keeps its low 32 bits. \<^verbatim>\<open>!clockEdg\<close> is 1 for 0 and 0 otherwise.
\<close>

definition SPI_Init_bits :: "comm_consts \<Rightarrow> u8 \<Rightarrow> u8 \<Rightarrow> u8 \<Rightarrow> u32" where
  "SPI_Init_bits c lsbFirst clockPol clockEdg =
     push_bit (LSBFirst c) (ucast lsbFirst) OR
     push_bit (MasterTranInh c) 1 OR
     push_bit (ManualSlaveAssEn c) 1 OR
     push_bit (RxFifoReset c) 1 OR
     push_bit (TxFifoReset c) 0 OR
     push_bit (CHPA c) (if clockEdg = 0 then 1 else 0) OR
     push_bit (CPOL c) (ucast clockPol) OR
     push_bit (Master c) 1 OR
     push_bit (SPE c) 1 OR
     push_bit (LOOP c) 0"

text \<open>Returns the new \<^verbatim>\<open>configValue\<close> and the result (status 0, two register writes).\<close>

definition SPI_Init :: "comm_consts \<Rightarrow> u32 \<Rightarrow> u8 \<Rightarrow> u32 \<Rightarrow> u8 \<Rightarrow> u8 \<Rightarrow> u32 \<times> io list \<times> int" where
  "SPI_Init c configValue lsbFirst clockFreq clockPol clockEdg =
     (let configValue' = configValue OR SPI_Init_bits c lsbFirst clockPol clockEdg
      in (configValue',
          [Xil_Out32 (SPI_BASEADDR c + SPISSR c) 0xFFFFFFFF,
           Xil_Out32 (SPI_BASEADDR c + SPICR c) configValue'],
          0))"

text \<open>
  A caller that initialises the peripheral several times: the arguments of the calls in
  order; the result is \<^verbatim>\<open>configValue\<close> after the last call.
\<close>

fun SPI_Init_calls :: "comm_consts \<Rightarrow> u32 \<Rightarrow> (u8 \<times> u32 \<times> u8 \<times> u8) list \<Rightarrow> u32" where
  "SPI_Init_calls c configValue [] = configValue"
| "SPI_Init_calls c configValue ((lsbFirst, clockFreq, clockPol, clockEdg) # calls) =
     SPI_Init_calls c (fst (SPI_Init c configValue lsbFirst clockFreq clockPol clockEdg)) calls"

subsection \<open>SPI\_Write\<close>

text \<open>The local variables of \<^verbatim>\<open>SPI_Write\<close> and \<^verbatim>\<open>SPI_Read\<close>, the buffer and the calls made.\<close>

record spi_vars =
  cfgValue :: u32
  SPIStatus :: u32
  rxCnt :: u32
  txCnt :: u32
  timeout :: u32
  data :: buffer
  io_trace :: "io list"

definition out32 :: "u32 \<Rightarrow> u32 \<Rightarrow> spi_vars \<Rightarrow> spi_vars" where
  "out32 a v s = s\<lparr>io_trace := io_trace s @ [Xil_Out32 a v]\<rparr>"

text \<open>
  The status poll, lines 145-149:
  \<^verbatim>\<open>do { SPIStatus = Xil_In32(SPI_BASEADDR + SPISR); }
  while(((SPIStatus & 0x01) == 1) && timeout--);\<close>
  It touches \<^verbatim>\<open>SPIStatus\<close>, \<^verbatim>\<open>timeout\<close> and the status register only, so the model
  takes the counter and the calls made and returns the last status with them. The
  post-decrement happens only when the left operand holds; it tests the old value and
  wraps from 0 to \<open>0xFFFFFFFF\<close>.
\<close>

function SPI_Write_poll :: "comm_consts \<Rightarrow> peripheral \<Rightarrow> u32 \<Rightarrow> io list \<Rightarrow> u32 \<times> u32 \<times> io list" where
  "SPI_Write_poll c dev tmo tr =
     (let v = dev tr (SPI_BASEADDR c + SPISR c);
          tr1 = tr @ [Xil_In32 (SPI_BASEADDR c + SPISR c) v]
      in if v AND 0x01 = 1
         then (if tmo \<noteq> 0
               then SPI_Write_poll c dev (tmo - 1) tr1
               else (v, tmo - 1, tr1))
         else (v, tmo, tr1))"
  by pat_completeness auto
termination
  by (relation "measure (\<lambda>(c, dev, tmo, tr). unat tmo)") (auto simp: measure_unat)

declare SPI_Write_poll.simps [simp del]

text \<open>
  One pass through the body of \<^verbatim>\<open>while(txCnt < bytesNumber)\<close>, lines 143-191.
  \<open>Inl\<close> is the early \<^verbatim>\<open>return -1\<close> with the state after the four recovery writes,
  \<open>Inr\<close> the state at the end of the body. \<^verbatim>\<open>timeout == -1\<close> compares a \<^verbatim>\<open>u32\<close>
  with \<open>0xFFFFFFFF\<close>.
\<close>

definition SPI_Write_body :: "comm_consts \<Rightarrow> peripheral \<Rightarrow> u8 \<Rightarrow> spi_vars \<Rightarrow> spi_vars + spi_vars" where
  "SPI_Write_body c dev bytesNumber s =
     (case SPI_Write_poll c dev (timeout s) (io_trace s) of (st, tmo, tr) \<Rightarrow>
      let s1 = s\<lparr>SPIStatus := st, timeout := tmo, io_trace := tr\<rparr>
      in if timeout s1 = - 1
         then
           (let s2 = s1\<lparr>cfgValue := cfgValue s1 OR push_bit (MasterTranInh c) 1\<rparr>;
                s3 = out32 (SPI_BASEADDR c + SPICR c) (cfgValue s2) s2;
                s4 = out32 (SPI_BASEADDR c + SRR c) 0x0000000A s3;
                s5 = out32 (SPI_BASEADDR c + SPISSR c) 0xFFFFFFFF s4;
                s6 = out32 (SPI_BASEADDR c + SPICR c) (cfgValue s5) s5
            in Inl s6)
         else
           (let s2 = s1\<lparr>timeout := 0xFFFF\<rparr>;
                s3 = (if rxCnt s2 < ucast bytesNumber
                      then (let v = dev (io_trace s2) (SPI_BASEADDR c + SPIDRR c)
                            in s2\<lparr>data := (data s2)(unat (rxCnt s2) := ucast v),
                                  io_trace := io_trace s2 @ [Xil_In32 (SPI_BASEADDR c + SPIDRR c) v],
                                  rxCnt := rxCnt s2 + 1\<rparr>)
                      else s2);
                s4 = s3\<lparr>txCnt := txCnt s3 + 1\<rparr>;
                s5 = (if txCnt s4 < ucast bytesNumber
                      then (let t1 = s4\<lparr>cfgValue := cfgValue s4 OR push_bit (MasterTranInh c) 1\<rparr>;
                                t2 = out32 (SPI_BASEADDR c + SPICR c) (cfgValue t1) t1;
                                t3 = out32 (SPI_BASEADDR c + SPIDTR c) (ucast (data t2 (unat (txCnt t2)))) t2;
                                t4 = t3\<lparr>cfgValue := cfgValue t3 AND NOT (push_bit (MasterTranInh c) 1)\<rparr>
                            in out32 (SPI_BASEADDR c + SPICR c) (cfgValue t4) t4)
                      else s4)
            in Inr s5))"

text \<open>
  The loop \<^verbatim>\<open>while(txCnt < bytesNumber)\<close>. The \<^verbatim>\<open>unsigned char\<close> is converted to the
  type of \<^verbatim>\<open>txCnt\<close> for the comparison.
\<close>

function SPI_Write_loop :: "comm_consts \<Rightarrow> peripheral \<Rightarrow> u8 \<Rightarrow> spi_vars \<Rightarrow> spi_vars + spi_vars" where
  "SPI_Write_loop c dev bytesNumber s =
     (if txCnt s < ucast bytesNumber
      then (case SPI_Write_body c dev bytesNumber s of
              Inl e \<Rightarrow> Inl e
            | Inr s' \<Rightarrow> SPI_Write_loop c dev bytesNumber s')
      else Inr s)"
  by pat_completeness auto
termination
proof (relation "measure (\<lambda>(c, dev, bytesNumber, s). unat (ucast bytesNumber :: u32) - unat (txCnt s))")
  show "wf (measure (\<lambda>(c, dev, bytesNumber, s). unat (ucast bytesNumber :: u32) - unat (txCnt s)))"
    by simp
next
  fix c dev and bytesNumber :: u8 and s s'
  assume lt: "txCnt s < ucast bytesNumber"
    and body: "SPI_Write_body c dev bytesNumber s = Inr s'"
  from body have "txCnt s' = txCnt s + 1"
    by (auto simp: SPI_Write_body_def out32_def Let_def split: prod.splits if_splits)
  moreover from lt have "unat (txCnt s + 1) = unat (txCnt s) + 1"
    by unat_arith
  moreover from lt have "unat (txCnt s) < unat (ucast bytesNumber :: u32)"
    by (simp add: word_less_nat_alt)
  ultimately show "((c, dev, bytesNumber, s'), (c, dev, bytesNumber, s))
      \<in> measure (\<lambda>(c, dev, bytesNumber, s). unat (ucast bytesNumber :: u32) - unat (txCnt s))"
    by simp
qed

declare SPI_Write_loop.simps [simp del]

text \<open>The statements before the loop, lines 122-139.\<close>

definition SPI_Write_entry :: "comm_consts \<Rightarrow> u32 \<Rightarrow> buffer \<Rightarrow> spi_vars" where
  "SPI_Write_entry c configValue data0 =
     (let s0 = \<lparr>cfgValue = configValue, SPIStatus = 0, rxCnt = 0, txCnt = 0,
                timeout = 0xFFFF, data = data0, io_trace = []\<rparr>;
          s1 = out32 (SPI_BASEADDR c + SPICR c) (cfgValue s0) s0;
          s2 = out32 (SPI_BASEADDR c + SPISSR c) (NOT (push_bit 0 0x00000001)) s1;
          s3 = out32 (SPI_BASEADDR c + SPIDTR c) (ucast (data s2 0)) s2;
          s4 = s3\<lparr>cfgValue := cfgValue s3 AND NOT (push_bit (MasterTranInh c) 1)\<rparr>
      in out32 (SPI_BASEADDR c + SPICR c) (cfgValue s4) s4)"

text \<open>
  The whole function. \<^verbatim>\<open>configValue\<close> is read and not written; \<^verbatim>\<open>slaveDeviceId\<close> is a
  parameter as in the C text; \<open>data0\<close> is the memory at \<^verbatim>\<open>data\<close> when the call starts.
  The result type is \<^verbatim>\<open>char\<close>: line 166 returns \<open>-1\<close>, line 201 returns
  \<^verbatim>\<open>bytesNumber\<close> converted to \<^verbatim>\<open>char\<close>.
\<close>

definition SPI_Write :: "comm_consts \<Rightarrow> peripheral \<Rightarrow> u32 \<Rightarrow> u8 \<Rightarrow> buffer \<Rightarrow> u8 \<Rightarrow> int result" where
  "SPI_Write c dev configValue slaveDeviceId data0 bytesNumber =
     (case SPI_Write_loop c dev bytesNumber (SPI_Write_entry c configValue data0) of
        Inl e \<Rightarrow> \<lparr>ret = - 1, buf = data e, trace = io_trace e\<rparr>
      | Inr s \<Rightarrow>
          (let s1 = s\<lparr>cfgValue := cfgValue s OR push_bit (MasterTranInh c) 1\<rparr>;
               s2 = out32 (SPI_BASEADDR c + SPICR c) (cfgValue s1) s1;
               s3 = out32 (SPI_BASEADDR c + SPISSR c) 0xFFFFFFFF s2
           in \<lparr>ret = sint bytesNumber, buf = data s3, trace = io_trace s3\<rparr>))"

text \<open>Whether the call leaves through the \<^verbatim>\<open>return -1\<close> of line 166.\<close>

definition SPI_Write_timed_out :: "comm_consts \<Rightarrow> peripheral \<Rightarrow> u32 \<Rightarrow> buffer \<Rightarrow> u8 \<Rightarrow> bool" where
  "SPI_Write_timed_out c dev configValue data0 bytesNumber =
     (case SPI_Write_loop c dev bytesNumber (SPI_Write_entry c configValue data0) of
        Inl e \<Rightarrow> True
      | Inr s \<Rightarrow> False)"

text \<open>
  The state at the head of the loop after \<open>k\<close> complete passes, if the loop gets
  that far: \<open>None\<close> when it has left before, by its condition or by the early return.
\<close>

fun SPI_Write_loop_head :: "comm_consts \<Rightarrow> peripheral \<Rightarrow> u8 \<Rightarrow> nat \<Rightarrow> spi_vars \<Rightarrow> spi_vars option" where
  "SPI_Write_loop_head c dev bytesNumber 0 s = Some s"
| "SPI_Write_loop_head c dev bytesNumber (Suc k) s =
     (if txCnt s < ucast bytesNumber
      then (case SPI_Write_body c dev bytesNumber s of
              Inl e \<Rightarrow> None
            | Inr s' \<Rightarrow> SPI_Write_loop_head c dev bytesNumber k s')
      else None)"


subsection \<open>SPI\_Read\<close>

text \<open>
  The status poll, lines 240-244:
  \<^verbatim>\<open>do { SPIStatus = Xil_In32(SPI_BASEADDR + SPISR); }
  while(((SPIStatus & 0x01) == 1) && timeout--);\<close>
  modelled as in \<^verbatim>\<open>SPI_Write\<close>.
\<close>

function SPI_Read_poll :: "comm_consts \<Rightarrow> peripheral \<Rightarrow> u32 \<Rightarrow> io list \<Rightarrow> u32 \<times> u32 \<times> io list" where
  "SPI_Read_poll c dev tmo tr =
     (let v = dev tr (SPI_BASEADDR c + SPISR c);
          tr1 = tr @ [Xil_In32 (SPI_BASEADDR c + SPISR c) v]
      in if v AND 0x01 = 1
         then (if tmo \<noteq> 0
               then SPI_Read_poll c dev (tmo - 1) tr1
               else (v, tmo - 1, tr1))
         else (v, tmo, tr1))"
  by pat_completeness auto
termination
  by (relation "measure (\<lambda>(c, dev, tmo, tr). unat tmo)") (auto simp: measure_unat)

declare SPI_Read_poll.simps [simp del]

text \<open>
  One pass through the body of \<^verbatim>\<open>while(txCnt < bytesNumber)\<close>, lines 238-285.
  \<open>Inl\<close> is the early \<^verbatim>\<open>return -1\<close> of line 261,
  \<open>Inr\<close> the state at the end of the body.
\<close>

definition SPI_Read_body :: "comm_consts \<Rightarrow> peripheral \<Rightarrow> u8 \<Rightarrow> spi_vars \<Rightarrow> spi_vars + spi_vars" where
  "SPI_Read_body c dev bytesNumber s =
     (case SPI_Read_poll c dev (timeout s) (io_trace s) of (st, tmo, tr) \<Rightarrow>
      let s1 = s\<lparr>SPIStatus := st, timeout := tmo, io_trace := tr\<rparr>
      in if timeout s1 = - 1
         then
           (let s2 = s1\<lparr>cfgValue := cfgValue s1 OR push_bit (MasterTranInh c) 1\<rparr>;
                s3 = out32 (SPI_BASEADDR c + SPICR c) (cfgValue s2) s2;
                s4 = out32 (SPI_BASEADDR c + SRR c) 0x0000000A s3;
                s5 = out32 (SPI_BASEADDR c + SPISSR c) 0xFFFFFFFF s4;
                s6 = out32 (SPI_BASEADDR c + SPICR c) (cfgValue s5) s5
            in Inl s6)
         else
           (let s2 = s1\<lparr>timeout := 0xFFFF\<rparr>;
                s3 = (if rxCnt s2 < ucast bytesNumber
                      then (let v = dev (io_trace s2) (SPI_BASEADDR c + SPIDRR c)
                            in s2\<lparr>data := (data s2)(unat (rxCnt s2) := ucast v),
                                  io_trace := io_trace s2 @ [Xil_In32 (SPI_BASEADDR c + SPIDRR c) v],
                                  rxCnt := rxCnt s2 + 1\<rparr>)
                      else s2);
                s4 = s3\<lparr>txCnt := txCnt s3 + 1\<rparr>;
                s5 = (if txCnt s4 < ucast bytesNumber
                      then (let t1 = s4\<lparr>cfgValue := cfgValue s4 OR push_bit (MasterTranInh c) 1\<rparr>;
                                t2 = out32 (SPI_BASEADDR c + SPICR c) (cfgValue t1) t1;
                                t3 = out32 (SPI_BASEADDR c + SPIDTR c) (ucast (data t2 (unat (txCnt t2)))) t2;
                                t4 = t3\<lparr>cfgValue := cfgValue t3 AND NOT (push_bit (MasterTranInh c) 1)\<rparr>
                            in out32 (SPI_BASEADDR c + SPICR c) (cfgValue t4) t4)
                      else s4)
            in Inr s5))"

text \<open>
  The loop \<^verbatim>\<open>while(txCnt < bytesNumber)\<close> of line 237.
\<close>

function SPI_Read_loop :: "comm_consts \<Rightarrow> peripheral \<Rightarrow> u8 \<Rightarrow> spi_vars \<Rightarrow> spi_vars + spi_vars" where
  "SPI_Read_loop c dev bytesNumber s =
     (if txCnt s < ucast bytesNumber
      then (case SPI_Read_body c dev bytesNumber s of
              Inl e \<Rightarrow> Inl e
            | Inr s' \<Rightarrow> SPI_Read_loop c dev bytesNumber s')
      else Inr s)"
  by pat_completeness auto
termination
proof (relation "measure (\<lambda>(c, dev, bytesNumber, s). unat (ucast bytesNumber :: u32) - unat (txCnt s))")
  show "wf (measure (\<lambda>(c, dev, bytesNumber, s). unat (ucast bytesNumber :: u32) - unat (txCnt s)))"
    by simp
next
  fix c dev and bytesNumber :: u8 and s s'
  assume lt: "txCnt s < ucast bytesNumber"
    and body: "SPI_Read_body c dev bytesNumber s = Inr s'"
  from body have "txCnt s' = txCnt s + 1"
    by (auto simp: SPI_Read_body_def out32_def Let_def split: prod.splits if_splits)
  moreover from lt have "unat (txCnt s + 1) = unat (txCnt s) + 1"
    by unat_arith
  moreover from lt have "unat (txCnt s) < unat (ucast bytesNumber :: u32)"
    by (simp add: word_less_nat_alt)
  ultimately show "((c, dev, bytesNumber, s'), (c, dev, bytesNumber, s))
      \<in> measure (\<lambda>(c, dev, bytesNumber, s). unat (ucast bytesNumber :: u32) - unat (txCnt s))"
    by simp
qed

declare SPI_Read_loop.simps [simp del]

text \<open>The statements before the loop, lines 217-234.\<close>

definition SPI_Read_entry :: "comm_consts \<Rightarrow> u32 \<Rightarrow> buffer \<Rightarrow> spi_vars" where
  "SPI_Read_entry c configValue data0 =
     (let s0 = \<lparr>cfgValue = configValue, SPIStatus = 0, rxCnt = 0, txCnt = 0,
                timeout = 0xFFFF, data = data0, io_trace = []\<rparr>;
          s1 = out32 (SPI_BASEADDR c + SPICR c) (cfgValue s0) s0;
          s2 = out32 (SPI_BASEADDR c + SPISSR c) (NOT (push_bit 0 0x00000001)) s1;
          s3 = out32 (SPI_BASEADDR c + SPIDTR c) (ucast (data s2 0)) s2;
          s4 = s3\<lparr>cfgValue := cfgValue s3 AND NOT (push_bit (MasterTranInh c) 1)\<rparr>
      in out32 (SPI_BASEADDR c + SPICR c) (cfgValue s4) s4)"

text \<open>
  The whole function, translated from its own text (lines 213-297).
\<close>

definition SPI_Read :: "comm_consts \<Rightarrow> peripheral \<Rightarrow> u32 \<Rightarrow> u8 \<Rightarrow> buffer \<Rightarrow> u8 \<Rightarrow> int result" where
  "SPI_Read c dev configValue slaveDeviceId data0 bytesNumber =
     (case SPI_Read_loop c dev bytesNumber (SPI_Read_entry c configValue data0) of
        Inl e \<Rightarrow> \<lparr>ret = - 1, buf = data e, trace = io_trace e\<rparr>
      | Inr s \<Rightarrow>
          (let s1 = s\<lparr>cfgValue := cfgValue s OR push_bit (MasterTranInh c) 1\<rparr>;
               s2 = out32 (SPI_BASEADDR c + SPICR c) (cfgValue s1) s1;
               s3 = out32 (SPI_BASEADDR c + SPISSR c) 0xFFFFFFFF s2
           in \<lparr>ret = sint bytesNumber, buf = data s3, trace = io_trace s3\<rparr>))"

text \<open>The state at the head of the loop after \<open>k\<close> complete passes, if the loop gets that far.\<close>

fun SPI_Read_loop_head :: "comm_consts \<Rightarrow> peripheral \<Rightarrow> u8 \<Rightarrow> nat \<Rightarrow> spi_vars \<Rightarrow> spi_vars option" where
  "SPI_Read_loop_head c dev bytesNumber 0 s = Some s"
| "SPI_Read_loop_head c dev bytesNumber (Suc k) s =
     (if txCnt s < ucast bytesNumber
      then (case SPI_Read_body c dev bytesNumber s of
              Inl e \<Rightarrow> None
            | Inr s' \<Rightarrow> SPI_Read_loop_head c dev bytesNumber k s')
      else None)"

subsection \<open>I2C\_Read\<close>

text \<open>
  The wait of line 433:
  \<^verbatim>\<open>while((Xil_In32(I2C_BASEADDR + SR) & 0x00000040) && (timeout--));\<close>
  It returns the counter and the calls made.
\<close>

function I2C_Read_poll :: "comm_consts \<Rightarrow> peripheral \<Rightarrow> u32 \<Rightarrow> io list \<Rightarrow> u32 \<times> io list" where
  "I2C_Read_poll c dev tmo tr =
     (let v = dev tr (I2C_BASEADDR c + SR c);
          tr1 = tr @ [Xil_In32 (I2C_BASEADDR c + SR c) v]
      in if v AND 0x00000040 \<noteq> 0
         then (if tmo \<noteq> 0
               then I2C_Read_poll c dev (tmo - 1) tr1
               else (tmo - 1, tr1))
         else (tmo, tr1))"
  by pat_completeness auto
termination
  by (relation "measure (\<lambda>(c, dev, tmo, tr). unat tmo)") (auto simp: measure_unat)

declare I2C_Read_poll.simps [simp del]

text \<open>
  The variables of the loop of \<^verbatim>\<open>I2C_Read\<close>: \<^verbatim>\<open>rxCnt\<close> (written \<open>rxc\<close>, the longer
  name being a field of the record above), \<^verbatim>\<open>timeout\<close> (written \<open>tmo\<close>), the memory at
  \<^verbatim>\<open>dataBuffer\<close>, the calls made. The early return of line 444 gives \<^verbatim>\<open>rxCnt\<close>,
  the buffer and the calls.
\<close>

type_synonym i2c_vars = "u32 \<times> u32 \<times> buffer \<times> io list"
type_synonym i2c_exit = "u32 \<times> buffer \<times> io list"

text \<open>One pass through the body of \<^verbatim>\<open>while(rxCnt < bytesNumber)\<close>, lines 431-453.\<close>

fun I2C_Read_body :: "comm_consts \<Rightarrow> peripheral \<Rightarrow> i2c_vars \<Rightarrow> i2c_exit + i2c_vars" where
  "I2C_Read_body c dev (rxc, tmo, dataBuffer, tr) =
     (case I2C_Read_poll c dev tmo tr of (tmo1, tr1) \<Rightarrow>
        if tmo1 = - 1
        then Inl (rxc, dataBuffer,
                  tr1 @ [Xil_Out32 (I2C_BASEADDR c + CR c) 0x00,
                         Xil_Out32 (I2C_BASEADDR c + RX_FIFO_PIRQ c) 0x0F,
                         Xil_Out32 (I2C_BASEADDR c + CR c) 0x02,
                         Xil_Out32 (I2C_BASEADDR c + CR c) 0x01])
        else (let v = dev tr1 (I2C_BASEADDR c + RX_FIFO c)
              in Inr (rxc + 1, 0xFFFFFF,
                      dataBuffer(unat rxc := ucast (v AND 0xFFFF)),
                      tr1 @ [Xil_In32 (I2C_BASEADDR c + RX_FIFO c) v])))"

function I2C_Read_loop :: "comm_consts \<Rightarrow> peripheral \<Rightarrow> u8 \<Rightarrow> i2c_vars \<Rightarrow> i2c_exit + i2c_vars" where
  "I2C_Read_loop c dev bytesNumber (rxc, tmo, dataBuffer, tr) =
     (if rxc < ucast bytesNumber
      then (case I2C_Read_body c dev (rxc, tmo, dataBuffer, tr) of
              Inl e \<Rightarrow> Inl e
            | Inr s' \<Rightarrow> I2C_Read_loop c dev bytesNumber s')
      else Inr (rxc, tmo, dataBuffer, tr))"
  by pat_completeness auto
termination
proof (relation "measure (\<lambda>(c, dev, bytesNumber, rxc, rest). unat (ucast bytesNumber :: u32) - unat rxc)")
  show "wf (measure (\<lambda>(c, dev, bytesNumber, rxc, rest). unat (ucast bytesNumber :: u32) - unat (rxc :: u32)))"
    by simp
next
  fix c dev and bytesNumber :: u8 and rxc :: u32 and tmo dataBuffer tr s'
  assume lt: "rxc < ucast bytesNumber"
    and body: "I2C_Read_body c dev (rxc, tmo, dataBuffer, tr) = Inr s'"
  from body have "fst s' = rxc + 1"
    by (auto simp: Let_def split: prod.splits if_splits)
  moreover from lt have "unat (rxc + 1) = unat rxc + 1"
    by unat_arith
  moreover from lt have "unat rxc < unat (ucast bytesNumber :: u32)"
    by (simp add: word_less_nat_alt)
  ultimately show "((c, dev, bytesNumber, s'), (c, dev, bytesNumber, rxc, tmo, dataBuffer, tr))
      \<in> measure (\<lambda>(c, dev, bytesNumber, rxc, rest). unat (ucast bytesNumber :: u32) - unat rxc)"
    by (cases s') simp
qed

declare I2C_Read_loop.simps [simp del]

text \<open>The statements before the loop, lines 415-427: the local variables and five calls.\<close>

definition I2C_Read_entry :: "comm_consts \<Rightarrow> u8 \<Rightarrow> buffer \<Rightarrow> u8 \<Rightarrow> i2c_vars" where
  "I2C_Read_entry c slaveAddress dataBuffer bytesNumber =
     (0, 0xFFFFFF, dataBuffer,
      [Xil_Out32 (I2C_BASEADDR c + CR c) 0x002,
       Xil_Out32 (I2C_BASEADDR c + CR c) 0x001,
       TIME_DelayMs 10,
       Xil_Out32 (I2C_BASEADDR c + TX_FIFO c) (0x101 OR push_bit 1 (ucast slaveAddress)),
       Xil_Out32 (I2C_BASEADDR c + TX_FIFO c) (0x200 + ucast bytesNumber)])"

text \<open>
  The whole function. The result type is \<^verbatim>\<open>unsigned char\<close>: the returned \<^verbatim>\<open>rxCnt\<close>
  is cut to 8 bits.
\<close>

definition I2C_Read :: "comm_consts \<Rightarrow> peripheral \<Rightarrow> u8 \<Rightarrow> buffer \<Rightarrow> u8 \<Rightarrow> u8 \<Rightarrow> u8 result" where
  "I2C_Read c dev slaveAddress dataBuffer bytesNumber stopBit =
     (case I2C_Read_loop c dev bytesNumber (I2C_Read_entry c slaveAddress dataBuffer bytesNumber) of
        Inl (rxc, dataBuffer', tr) \<Rightarrow>
          \<lparr>ret = ucast rxc, buf = dataBuffer', trace = tr\<rparr>
      | Inr (rxc, tmo, dataBuffer', tr) \<Rightarrow>
          \<lparr>ret = ucast rxc, buf = dataBuffer', trace = tr @ [TIME_DelayMs 10]\<rparr>)"

text \<open>The state at the head of the loop after \<open>k\<close> complete passes, if the loop gets that far.\<close>

fun I2C_Read_loop_head :: "comm_consts \<Rightarrow> peripheral \<Rightarrow> u8 \<Rightarrow> nat \<Rightarrow> i2c_vars \<Rightarrow> i2c_vars option" where
  "I2C_Read_loop_head c dev bytesNumber 0 s = Some s"
| "I2C_Read_loop_head c dev bytesNumber (Suc k) (rxc, tmo, dataBuffer, tr) =
     (if rxc < ucast bytesNumber
      then (case I2C_Read_body c dev (rxc, tmo, dataBuffer, tr) of
              Inl e \<Rightarrow> None
            | Inr s' \<Rightarrow> I2C_Read_loop_head c dev bytesNumber k s')
      else None)"

subsection \<open>I2C\_Write\<close>

text \<open>
  The loop of lines 490-496. \<^verbatim>\<open>bytesNumber - 1\<close> is computed in \<^verbatim>\<open>int\<close> and converted
  to the type of \<^verbatim>\<open>txCnt\<close> for the comparison; inside the loop \<^verbatim>\<open>bytesNumber\<close> is
  at least 1. The function reads no register, so it takes no peripheral. \<open>txc\<close> is
  \<^verbatim>\<open>txCnt\<close>.
\<close>

function I2C_Write_loop :: "comm_consts \<Rightarrow> u8 \<Rightarrow> buffer \<Rightarrow> u32 \<Rightarrow> io list \<Rightarrow> u32 \<times> io list" where
  "I2C_Write_loop c bytesNumber dataBuffer txc tr =
     (if txc < ucast bytesNumber
      then I2C_Write_loop c bytesNumber dataBuffer (txc + 1)
             (tr @ [Xil_Out32 (I2C_BASEADDR c + TX_FIFO c)
                      (if txc = ucast bytesNumber - 1
                       then 0x200 OR ucast (dataBuffer (unat txc))
                       else ucast (dataBuffer (unat txc)))])
      else (txc, tr))"
  by pat_completeness auto
termination
proof (relation "measure (\<lambda>(c, bytesNumber, dataBuffer, txc, tr). unat (ucast bytesNumber :: u32) - unat txc)")
  show "wf (measure (\<lambda>(c, bytesNumber, dataBuffer, txc, tr). unat (ucast bytesNumber :: u32) - unat (txc :: u32)))"
    by simp
next
  fix c :: comm_consts and bytesNumber :: u8 and dataBuffer :: buffer and txc :: u32 and tr :: "io list"
  assume lt: "txc < ucast bytesNumber"
  then have "unat (txc + 1) = unat txc + 1"
    by unat_arith
  moreover from lt have "unat txc < unat (ucast bytesNumber :: u32)"
    by (simp add: word_less_nat_alt)
  ultimately show "((c, bytesNumber, dataBuffer, txc + 1,
        tr @ [Xil_Out32 (I2C_BASEADDR c + TX_FIFO c)
                (if txc = ucast bytesNumber - 1
                 then 0x200 OR ucast (dataBuffer (unat txc))
                 else ucast (dataBuffer (unat txc)))]),
      (c, bytesNumber, dataBuffer, txc, tr))
      \<in> measure (\<lambda>(c, bytesNumber, dataBuffer, txc, tr). unat (ucast bytesNumber :: u32) - unat txc)"
    by simp
qed

declare I2C_Write_loop.simps [simp del]

definition I2C_Write :: "comm_consts \<Rightarrow> u8 \<Rightarrow> buffer \<Rightarrow> u8 \<Rightarrow> u8 \<Rightarrow> u8 result" where
  "I2C_Write c slaveAddress dataBuffer bytesNumber stopBit =
     (case I2C_Write_loop c bytesNumber dataBuffer 0
             [Xil_Out32 (I2C_BASEADDR c + CR c) 0x002,
              Xil_Out32 (I2C_BASEADDR c + CR c) 0x001,
              TIME_DelayMs 10,
              Xil_Out32 (I2C_BASEADDR c + TX_FIFO c) (0x100 OR push_bit 1 (ucast slaveAddress))] of
        (txc, tr) \<Rightarrow>
          \<lparr>ret = ucast txc, buf = dataBuffer, trace = tr @ [TIME_DelayMs 10]\<rparr>)"

subsection \<open>Concrete constants and peripherals\<close>

text \<open>
  One assignment of the constants of the header, for running the functions on concrete
  inputs: offsets and bit positions laid out as in the AXI SPI and AXI IIC cores, and two
  base addresses.
\<close>

definition example_consts :: comm_consts where
  "example_consts =
     \<lparr>SPI_BASEADDR = 0x40A00000, SPICR = 0x60, SPISR = 0x64, SPIDTR = 0x68, SPIDRR = 0x6C,
      SPISSR = 0x70, SRR = 0x40,
      LSBFirst = 9, MasterTranInh = 8, ManualSlaveAssEn = 7, RxFifoReset = 6, TxFifoReset = 5,
      CHPA = 4, CPOL = 3, Master = 2, SPE = 1, LOOP = 0,
      I2C_BASEADDR = 0x40800000, CR = 0x100, SR = 0x104, TX_FIFO = 0x108, RX_FIFO = 0x10C,
      RX_FIFO_PIRQ = 0x120\<rparr>"

text \<open>
  A peripheral that is always ready: both status registers read 0, and a data register
  reads the number of calls made so far.
\<close>

definition ready_dev :: peripheral where
  "ready_dev tr a = (if a = 0x40A00064 \<or> a = 0x40800104 then 0 else of_nat (length tr))"

text \<open>A peripheral that never gets ready: every register reads \<open>0x41\<close> (bits 0 and 6).\<close>

definition stalled_dev :: peripheral where
  "stalled_dev tr a = 0x41"

text \<open>
  A peripheral that is ready as long as fewer than \<open>k\<close> calls have been made and
  never afterwards.
\<close>

definition stalling_dev :: "nat \<Rightarrow> peripheral" where
  "stalling_dev k tr a = (if length tr < k then ready_dev tr a else stalled_dev tr a)"

text \<open>
  The state of \<^verbatim>\<open>SPI_Write\<close> at the head of its second pass, when it sends two zero
  bytes with \<^verbatim>\<open>configValue = 0x1D6\<close> and the first poll and the first read of the
  receive register are answered with 0 and 5.
\<close>

definition example_spi_head :: spi_vars where
  "example_spi_head =
     \<lparr>cfgValue = 0xD6, SPIStatus = 0, rxCnt = 1, txCnt = 1, timeout = 0xFFFF,
      data = (\<lambda>i. 0)(0 := 5),
      io_trace = [Xil_Out32 0x40A00060 0x1D6, Xil_Out32 0x40A00070 0xFFFFFFFE,
                  Xil_Out32 0x40A00068 0, Xil_Out32 0x40A00060 0xD6,
                  Xil_In32 0x40A00064 0, Xil_In32 0x40A0006C 5,
                  Xil_Out32 0x40A00060 0x1D6, Xil_Out32 0x40A00068 0,
                  Xil_Out32 0x40A00060 0xD6]\<rparr>"

text \<open>
  The calls of \<^verbatim>\<open>I2C_Read\<close> up to the head of its second pass, when it reads two bytes
  from the slave at \<open>0x50\<close> and the first wait and the first read of the receive FIFO
  are answered with 0 and 6.
\<close>

definition example_i2c_calls :: "io list" where
  "example_i2c_calls =
     [Xil_Out32 0x40800100 2, Xil_Out32 0x40800100 1, TIME_DelayMs 10,
      Xil_Out32 0x40800108 0x1A1, Xil_Out32 0x40800108 0x202,
      Xil_In32 0x40800104 0, Xil_In32 0x4080010C 6]"

subsection \<open>Loop invariants\<close>

text \<open>
  What holds at the head of the loop of \<^verbatim>\<open>SPI_Write\<close>: the two counters agree and
  have not passed \<^verbatim>\<open>bytesNumber\<close>, the counter of the wait is at its ceiling, the
  transaction-inhibit bit of \<^verbatim>\<open>cfgValue\<close> is clear and its other bits are those of
  \<^verbatim>\<open>configValue\<close>, and the bytes stored so far are the values read from the receive
  register, in order.
\<close>

definition SPI_inv :: "comm_consts \<Rightarrow> u32 \<Rightarrow> u8 \<Rightarrow> spi_vars \<Rightarrow> bool" where
  "SPI_inv c configValue n s \<longleftrightarrow>
     rxCnt s = txCnt s \<and> txCnt s \<le> ucast n \<and> timeout s = 0xFFFF \<and>
     cfgValue s = configValue AND NOT (push_bit (MasterTranInh c) 1) \<and>
     map (data s) [0..<unat (txCnt s)] =
       map ucast (reads_of (SPI_BASEADDR c + SPIDRR c) (io_trace s))"


section \<open>Properties\<close>

subsection \<open>Words, bits and logs of calls\<close>

lemma reads_of_append: "reads_of a (xs @ ys) = reads_of a xs @ reads_of a ys"
  by (induction a xs rule: reads_of.induct) auto

lemma unat_ucast_u8: "unat (ucast (n :: u8) :: u32) = unat n"
proof -
  have "unat n < 2 ^ LENGTH(8)" by (rule unsigned_less)
  then have "unat n < 2 ^ 32" by simp
  then show ?thesis by (simp add: unsigned_ucast_eq take_bit_nat_eq_self)
qed



text \<open>The value of a \<^verbatim>\<open>char\<close> that holds the 8 bits of an \<^verbatim>\<open>unsigned char\<close>.\<close>

lemma sint_u8: "sint (n :: u8) = (if uint n < 128 then uint n else uint n - 256)"
proof -
  have b1: "0 \<le> uint n" by simp
  have "uint n < 2 ^ LENGTH(8)" by (rule uint_lt2p)
  then have b2: "uint n < 256" by simp
  have s: "sint n = (uint n + 128) mod 256 - 128"
    by (simp add: sint_uint signed_take_bit_eq_take_bit_shift take_bit_eq_mod)
  show ?thesis
  proof (cases "uint n < 128")
    case True
    with b1 have "(uint n + 128) mod 256 = uint n + 128"
      by (intro mod_pos_pos_trivial) simp_all
    with s True show ?thesis by simp
  next
    case False
    have "(uint n + 128) mod 256 = ((uint n - 128) + 256) mod 256" by (simp add: add.commute)
    also have "\<dots> = (uint n - 128) mod 256" by (rule mod_add_self2)
    also from False b2 have "\<dots> = uint n - 128"
      by (intro mod_pos_pos_trivial) simp_all
    finally show ?thesis using s False by simp
  qed
qed

lemma u32_succ_below:
  fixes x :: u32
  assumes "x < ucast (n :: u8)"
  shows "unat (x + 1) = Suc (unat x)" and "x + 1 \<le> ucast n"
  using assms by unat_arith+

lemma or_and_not_mask: "(x OR m) AND NOT m = x AND NOT (m :: u32)"
  by (simp add: bit_eq_iff bit_simps) blast

lemma and_not_or_mask: "(x AND NOT m) OR m = x OR (m :: u32)"
  by (simp add: bit_eq_iff bit_simps) blast

subsection \<open>The status poll of SPI\_Write\<close>

lemma SPI_Write_poll_reads:
  "SPI_Write_poll c dev tmo tr = (st, tmo', tr') \<Longrightarrow> a \<noteq> SPI_BASEADDR c + SPISR c \<Longrightarrow>
   reads_of a tr' = reads_of a tr"
proof (induction c dev tmo tr rule: SPI_Write_poll.induct)
  case (1 c dev tmo tr)
  from "1.prems"(1) show ?case
    by (subst (asm) SPI_Write_poll.simps)
       (use 1 in \<open>auto simp: Let_def reads_of_append split: if_splits\<close>)
qed

lemma SPI_Write_poll_extends:
  "SPI_Write_poll c dev tmo tr = (st, tmo', tr') \<Longrightarrow> \<exists>es. tr' = tr @ es"
proof (induction c dev tmo tr rule: SPI_Write_poll.induct)
  case (1 c dev tmo tr)
  from "1.prems"(1) show ?case
    by (subst (asm) SPI_Write_poll.simps)
       (use 1 in \<open>auto simp: Let_def split: if_splits\<close>)
qed

lemma SPI_Write_poll_stalled:
  assumes "\<And>es. dev (tr @ es) (SPI_BASEADDR c + SPISR c) AND 1 = 1"
  shows "fst (snd (SPI_Write_poll c dev tmo tr)) = - 1"
  using assms
proof (induction c dev tmo tr rule: SPI_Write_poll.induct)
  case (1 c dev tmo tr)
  let ?a = "SPI_BASEADDR c + SPISR c"
  from "1.prems"[of "[]"] have now: "dev tr ?a AND 1 = 1" by simp
  show ?case
  proof (cases "tmo = 0")
    case True
    with now show ?thesis
      by (subst SPI_Write_poll.simps) (simp add: Let_def)
  next
    case False
    have "dev ((tr @ [Xil_In32 ?a (dev tr ?a)]) @ es) ?a AND 1 = 1" for es
      using "1.prems"[of "Xil_In32 ?a (dev tr ?a) # es"] by simp
    from "1.IH"[OF refl refl now False this] now False show ?thesis
      by (subst SPI_Write_poll.simps) (simp add: Let_def)
  qed
qed

text \<open>A status read with bit 0 clear ends the poll at once and leaves the counter alone.\<close>

lemma SPI_Write_poll_ready:
  "dev tr (SPI_BASEADDR c + SPISR c) AND 1 \<noteq> 1 \<Longrightarrow>
   fst (snd (SPI_Write_poll c dev tmo tr)) = tmo"
  by (subst SPI_Write_poll.simps) (simp add: Let_def)

text \<open>
  What it means that the poll ends with the counter at \<open>0xFFFFFFFF\<close>, when it starts
  from another value: the last status read had bit 0 set, and the status register was
  read once more than the counter's start value (\<open>0x10000\<close> times from the ceiling).
  Otherwise the last status read had bit 0 clear.
\<close>

lemma SPI_Write_poll_exhausted:
  "tmo \<noteq> - 1 \<Longrightarrow>
   (fst (snd (SPI_Write_poll c dev tmo tr)) = - 1 \<longleftrightarrow> fst (SPI_Write_poll c dev tmo tr) AND 1 = 1) \<and>
   (fst (snd (SPI_Write_poll c dev tmo tr)) = - 1 \<longrightarrow>
      length (snd (snd (SPI_Write_poll c dev tmo tr))) = length tr + unat tmo + 1) \<and>
   length (snd (snd (SPI_Write_poll c dev tmo tr))) \<le> length tr + unat tmo + 1"
proof (induction c dev tmo tr rule: SPI_Write_poll.induct)
  case (1 c dev tmo tr)
  let ?a = "SPI_BASEADDR c + SPISR c"
  show ?case
  proof (cases "dev tr ?a AND 1 = 1")
    case False
    with "1.prems" show ?thesis
      by (subst (1 2 3 4 5) SPI_Write_poll.simps) (simp add: Let_def)
  next
    case busy: True
    show ?thesis
    proof (cases "tmo = 0")
      case True
      with busy show ?thesis
        by (subst (1 2 3 4 5) SPI_Write_poll.simps) (simp add: Let_def)
    next
      case False
      then have "tmo - 1 \<noteq> - 1" by simp
      moreover from False have "unat (tmo - 1) + 1 = unat tmo"
        using measure_unat[OF False] by (simp add: unat_minus_one)
      ultimately show ?thesis
        using "1.IH"[OF refl refl busy False] busy False
        by (subst (1 2 3 4 5) SPI_Write_poll.simps) (simp add: Let_def)
    qed
  qed
qed

subsection \<open>The loop of SPI\_Write\<close>

text \<open>Invariant rules: what every pass keeps holds when the loop is left, by either way.\<close>

lemma SPI_Write_loop_Inr_rule:
  assumes "SPI_Write_loop c dev n s = Inr s'"
    and "P s"
    and "\<And>s s'. P s \<Longrightarrow> txCnt s < ucast n \<Longrightarrow> SPI_Write_body c dev n s = Inr s' \<Longrightarrow> P s'"
  shows "P s' \<and> \<not> txCnt s' < ucast n"
  using assms
proof (induction c dev n s rule: SPI_Write_loop.induct)
  case (1 c dev n s)
  show ?case
  proof (cases "txCnt s < ucast n")
    case False
    with "1.prems" show ?thesis by (simp add: SPI_Write_loop.simps)
  next
    case True
    with "1.prems"(1) obtain s1 where b: "SPI_Write_body c dev n s = Inr s1"
      and l: "SPI_Write_loop c dev n s1 = Inr s'"
      by (subst (asm) SPI_Write_loop.simps) (auto split: sum.splits)
    from "1.prems"(3)[OF "1.prems"(2) True b] have "P s1" .
    from "1.IH"[OF True b l this "1.prems"(3)] show ?thesis by simp
  qed
qed

lemma SPI_Write_loop_Inl_rule:
  assumes "SPI_Write_loop c dev n s = Inl e"
    and "P s"
    and "\<And>s s'. P s \<Longrightarrow> txCnt s < ucast n \<Longrightarrow> SPI_Write_body c dev n s = Inr s' \<Longrightarrow> P s'"
  shows "\<exists>s1. P s1 \<and> txCnt s1 < ucast n \<and> SPI_Write_body c dev n s1 = Inl e"
  using assms
proof (induction c dev n s rule: SPI_Write_loop.induct)
  case (1 c dev n s)
  show ?case
  proof (cases "txCnt s < ucast n")
    case False
    with "1.prems" show ?thesis by (simp add: SPI_Write_loop.simps)
  next
    case True
    show ?thesis
    proof (cases "SPI_Write_body c dev n s")
      case (Inl e')
      with True "1.prems"(1) have "e' = e"
        by (subst (asm) SPI_Write_loop.simps) simp
      with Inl True "1.prems"(2) show ?thesis by blast
    next
      case (Inr s1)
      with True "1.prems"(1) have l: "SPI_Write_loop c dev n s1 = Inl e"
        by (subst (asm) SPI_Write_loop.simps) simp
      from "1.prems"(3)[OF "1.prems"(2) True Inr] have "P s1" .
      from "1.IH"[OF True Inr l this "1.prems"(3)] show ?thesis by simp
    qed
  qed
qed

lemma SPI_inv_entry: "SPI_inv c configValue n (SPI_Write_entry c configValue data0)"
  by (simp add: SPI_inv_def SPI_Write_entry_def out32_def Let_def)

lemma SPI_inv_body:
  assumes inv: "SPI_inv c configValue n s"
    and lt: "txCnt s < ucast n"
    and body: "SPI_Write_body c dev n s = Inr s'"
    and regs: "SPISR c \<noteq> SPIDRR c"
  shows "SPI_inv c configValue n s'"
proof -
  obtain st tmo tr where poll: "SPI_Write_poll c dev (timeout s) (io_trace s) = (st, tmo, tr)"
    by (cases "SPI_Write_poll c dev (timeout s) (io_trace s)") auto
  from regs have "SPI_BASEADDR c + SPIDRR c \<noteq> SPI_BASEADDR c + SPISR c"
    by simp
  from SPI_Write_poll_reads[OF poll this]
  have rd: "reads_of (SPI_BASEADDR c + SPIDRR c) tr = reads_of (SPI_BASEADDR c + SPIDRR c) (io_trace s)" .
  from inv have rx: "rxCnt s = txCnt s" by (simp add: SPI_inv_def)
  note succ = u32_succ_below[OF lt]
  from body poll lt rx inv rd succ show ?thesis
    by (auto simp: SPI_Write_body_def SPI_inv_def out32_def Let_def reads_of_append
          or_and_not_mask split: if_splits)
qed

lemma SPI_Write_body_extends:
  assumes "SPI_Write_body c dev n s = r"
  shows "\<exists>es. io_trace (case r of Inl e \<Rightarrow> e | Inr s' \<Rightarrow> s') = io_trace s @ es"
proof -
  obtain st tmo tr where poll: "SPI_Write_poll c dev (timeout s) (io_trace s) = (st, tmo, tr)"
    by (cases "SPI_Write_poll c dev (timeout s) (io_trace s)") auto
  from SPI_Write_poll_extends[OF poll] obtain es where "tr = io_trace s @ es" ..
  with poll assms show ?thesis
    by (auto simp: SPI_Write_body_def out32_def Let_def)
qed

lemma SPI_Write_loop_extends:
  assumes "SPI_Write_loop c dev n s = r"
  shows "\<exists>es. io_trace (case r of Inl e \<Rightarrow> e | Inr s' \<Rightarrow> s') = io_trace s @ es"
proof -
  let ?P = "\<lambda>s'. \<exists>es. io_trace s' = io_trace s @ es"
  have step: "?P s2" if "?P s1" "txCnt s1 < ucast n" "SPI_Write_body c dev n s1 = Inr s2" for s1 s2
    using that(1) SPI_Write_body_extends[OF that(3)] by auto
  show ?thesis
  proof (cases r)
    case (Inr s')
    with assms have "SPI_Write_loop c dev n s = Inr s'" by simp
    from SPI_Write_loop_Inr_rule[OF this, where P = ?P] step Inr show ?thesis by auto
  next
    case (Inl e)
    with assms have "SPI_Write_loop c dev n s = Inl e" by simp
    from SPI_Write_loop_Inl_rule[OF this, where P = ?P] step
    obtain s1 where "?P s1" "SPI_Write_body c dev n s1 = Inl e" by auto
    with SPI_Write_body_extends[OF this(2)] Inl show ?thesis by auto
  qed
qed

text \<open>
  The early return is taken exactly when the loop reaches a head from which the poll
  uses up its counter.
\<close>

lemma SPI_Write_loop_head_unroll:
  "SPI_Write_loop_head c dev n k s = Some s' \<Longrightarrow>
   SPI_Write_loop c dev n s = SPI_Write_loop c dev n s'"
proof (induction k arbitrary: s)
  case 0
  then show ?case by simp
next
  case (Suc k)
  from Suc.prems obtain s1 where lt: "txCnt s < ucast n"
    and b: "SPI_Write_body c dev n s = Inr s1"
    and h: "SPI_Write_loop_head c dev n k s1 = Some s'"
    by (auto split: if_splits sum.splits)
  from lt b have "SPI_Write_loop c dev n s = SPI_Write_loop c dev n s1"
    by (subst SPI_Write_loop.simps) simp
  with Suc.IH[OF h] show ?case by simp
qed

lemma SPI_Write_body_exhausted:
  "fst (snd (SPI_Write_poll c dev (timeout s) (io_trace s))) = - 1 \<Longrightarrow>
   \<exists>e. SPI_Write_body c dev n s = Inl e"
  by (simp add: SPI_Write_body_def Let_def split_beta)

lemma SPI_Write_head_exhausted:
  assumes head: "SPI_Write_loop_head c dev n k (SPI_Write_entry c configValue data0) = Some s"
    and more: "txCnt s < ucast n"
    and exhausted: "fst (snd (SPI_Write_poll c dev (timeout s) (io_trace s))) = - 1"
  shows "SPI_Write_timed_out c dev configValue data0 n"
proof -
  from SPI_Write_body_exhausted[OF exhausted] obtain e where "SPI_Write_body c dev n s = Inl e" ..
  with more have "SPI_Write_loop c dev n s = Inl e"
    by (subst SPI_Write_loop.simps) simp
  with SPI_Write_loop_head_unroll[OF head] show ?thesis
    by (simp add: SPI_Write_timed_out_def)
qed

lemma SPI_Write_timed_out_head:
  assumes "SPI_Write_loop c dev n s = Inl e"
  shows "\<exists>k s'. SPI_Write_loop_head c dev n k s = Some s' \<and> txCnt s' < ucast n \<and>
           fst (snd (SPI_Write_poll c dev (timeout s') (io_trace s'))) = - 1"
  using assms
proof (induction c dev n s rule: SPI_Write_loop.induct)
  case (1 c dev n s)
  from "1.prems" have lt: "txCnt s < ucast n"
    by (subst (asm) SPI_Write_loop.simps) (simp split: if_splits)
  show ?case
  proof (cases "SPI_Write_body c dev n s")
    case (Inl e')
    then have "fst (snd (SPI_Write_poll c dev (timeout s) (io_trace s))) = - 1"
      by (simp add: SPI_Write_body_def Let_def split_beta split: if_splits)
    with lt have "SPI_Write_loop_head c dev n 0 s = Some s \<and> txCnt s < ucast n \<and>
           fst (snd (SPI_Write_poll c dev (timeout s) (io_trace s))) = - 1"
      by simp
    then show ?thesis by blast
  next
    case (Inr s1)
    with lt "1.prems" have "SPI_Write_loop c dev n s1 = Inl e"
      by (subst (asm) SPI_Write_loop.simps) simp
    from "1.IH"[OF lt Inr this] obtain k s' where
      "SPI_Write_loop_head c dev n k s1 = Some s'" "txCnt s' < ucast n"
      "fst (snd (SPI_Write_poll c dev (timeout s') (io_trace s'))) = - 1"
      by blast
    with lt Inr have "SPI_Write_loop_head c dev n (Suc k) s = Some s' \<and> txCnt s' < ucast n \<and>
           fst (snd (SPI_Write_poll c dev (timeout s') (io_trace s'))) = - 1"
      by simp
    then show ?thesis by blast
  qed
qed

lemma SPI_Write_timed_out_iff:
  "SPI_Write_timed_out c dev configValue data0 n \<longleftrightarrow>
   (\<exists>k s. SPI_Write_loop_head c dev n k (SPI_Write_entry c configValue data0) = Some s \<and>
          txCnt s < ucast n \<and>
          fst (snd (SPI_Write_poll c dev (timeout s) (io_trace s))) = - 1)"
proof
  assume "SPI_Write_timed_out c dev configValue data0 n"
  then obtain e where "SPI_Write_loop c dev n (SPI_Write_entry c configValue data0) = Inl e"
    by (auto simp: SPI_Write_timed_out_def split: sum.splits)
  from SPI_Write_timed_out_head[OF this] show
    "\<exists>k s. SPI_Write_loop_head c dev n k (SPI_Write_entry c configValue data0) = Some s \<and>
          txCnt s < ucast n \<and>
          fst (snd (SPI_Write_poll c dev (timeout s) (io_trace s))) = - 1" .
next
  assume "\<exists>k s. SPI_Write_loop_head c dev n k (SPI_Write_entry c configValue data0) = Some s \<and>
          txCnt s < ucast n \<and>
          fst (snd (SPI_Write_poll c dev (timeout s) (io_trace s))) = - 1"
  then show "SPI_Write_timed_out c dev configValue data0 n"
    using SPI_Write_head_exhausted by blast
qed

lemma SPI_Write_heads_timeout:
  "timeout s = 0xFFFF \<Longrightarrow> SPI_Write_loop_head c dev n k s = Some s' \<Longrightarrow> timeout s' = 0xFFFF"
proof (induction k arbitrary: s)
  case 0
  then show ?case by simp
next
  case (Suc k)
  from Suc.prems(2) obtain s1 where b: "SPI_Write_body c dev n s = Inr s1"
    and h: "SPI_Write_loop_head c dev n k s1 = Some s'"
    by (auto split: if_splits sum.splits)
  from b have "timeout s1 = 0xFFFF"
    by (auto simp: SPI_Write_body_def out32_def Let_def split: prod.splits if_splits)
  from Suc.IH[OF this h] show ?case .
qed

text \<open>The two ways out of the call, stated on the path it takes.\<close>

lemma SPI_Write_completes:
  assumes cnt: "1 \<le> unat bytesNumber"
    and regs: "SPISR c \<noteq> SPIDRR c"
    and mti: "MasterTranInh c < 32"
    and ok: "\<not> SPI_Write_timed_out c dev configValue data0 bytesNumber"
  shows "ret (SPI_Write c dev configValue slaveDeviceId data0 bytesNumber) = sint bytesNumber \<and>
         map (buf (SPI_Write c dev configValue slaveDeviceId data0 bytesNumber)) [0..<unat bytesNumber] =
           map ucast (reads_of (SPI_BASEADDR c + SPIDRR c)
             (trace (SPI_Write c dev configValue slaveDeviceId data0 bytesNumber))) \<and>
         (\<exists>pre. trace (SPI_Write c dev configValue slaveDeviceId data0 bytesNumber) =
            pre @ [Xil_Out32 (SPI_BASEADDR c + SPICR c) (configValue OR push_bit (MasterTranInh c) 1),
                   Xil_Out32 (SPI_BASEADDR c + SPISSR c) 0xFFFFFFFF]) \<and>
         bit (configValue OR push_bit (MasterTranInh c) 1) (MasterTranInh c)"
proof -
  from ok obtain s where loop:
    "SPI_Write_loop c dev bytesNumber (SPI_Write_entry c configValue data0) = Inr s"
    by (auto simp: SPI_Write_timed_out_def split: sum.splits)
  have "SPI_inv c configValue bytesNumber s \<and> \<not> txCnt s < ucast bytesNumber"
  proof (rule SPI_Write_loop_Inr_rule[OF loop, where P = "SPI_inv c configValue bytesNumber"])
    show "SPI_inv c configValue bytesNumber (SPI_Write_entry c configValue data0)"
      by (rule SPI_inv_entry)
  next
    fix s s'
    assume "SPI_inv c configValue bytesNumber s" "txCnt s < ucast bytesNumber"
      "SPI_Write_body c dev bytesNumber s = Inr s'"
    then show "SPI_inv c configValue bytesNumber s'"
      using regs by (rule SPI_inv_body)
  qed
  then have inv: "SPI_inv c configValue bytesNumber s" and tx: "txCnt s = ucast bytesNumber"
    by (auto simp: SPI_inv_def)
  have n: "unat (ucast bytesNumber :: u32) = unat bytesNumber"
    by (rule unat_ucast_u8)
  from mti have b: "bit (configValue OR push_bit (MasterTranInh c) 1) (MasterTranInh c)"
    by (simp add: bit_simps)
  from loop inv tx n b show ?thesis
    by (simp add: SPI_Write_def SPI_inv_def out32_def Let_def reads_of_append and_not_or_mask)
qed

lemma SPI_Write_timed_out_recovery:
  assumes cnt: "1 \<le> unat bytesNumber"
    and mti: "MasterTranInh c < 32"
    and bad: "SPI_Write_timed_out c dev configValue data0 bytesNumber"
  shows "ret (SPI_Write c dev configValue slaveDeviceId data0 bytesNumber) = - 1 \<and>
         (\<exists>pre. trace (SPI_Write c dev configValue slaveDeviceId data0 bytesNumber) =
            pre @ [Xil_Out32 (SPI_BASEADDR c + SPICR c) (configValue OR push_bit (MasterTranInh c) 1),
                   Xil_Out32 (SPI_BASEADDR c + SRR c) 0x0000000A,
                   Xil_Out32 (SPI_BASEADDR c + SPISSR c) 0xFFFFFFFF,
                   Xil_Out32 (SPI_BASEADDR c + SPICR c) (configValue OR push_bit (MasterTranInh c) 1)]) \<and>
         bit (configValue OR push_bit (MasterTranInh c) 1) (MasterTranInh c)"
proof -
  let ?P = "\<lambda>s. cfgValue s = configValue AND NOT (push_bit (MasterTranInh c) 1)"
  from bad obtain e where loop:
    "SPI_Write_loop c dev bytesNumber (SPI_Write_entry c configValue data0) = Inl e"
    by (auto simp: SPI_Write_timed_out_def split: sum.splits)
  have "\<exists>s1. ?P s1 \<and> txCnt s1 < ucast bytesNumber \<and> SPI_Write_body c dev bytesNumber s1 = Inl e"
  proof (rule SPI_Write_loop_Inl_rule[OF loop])
    show "?P (SPI_Write_entry c configValue data0)"
      by (simp add: SPI_Write_entry_def out32_def Let_def)
  next
    fix s s' assume "?P s" "SPI_Write_body c dev bytesNumber s = Inr s'"
    then show "?P s'"
      by (auto simp: SPI_Write_body_def out32_def Let_def or_and_not_mask
            split: prod.splits if_splits)
  qed
  then obtain s1 where c1: "?P s1" and b1: "SPI_Write_body c dev bytesNumber s1 = Inl e"
    by blast
  from b1 c1 have "\<exists>pre. io_trace e =
            pre @ [Xil_Out32 (SPI_BASEADDR c + SPICR c) (configValue OR push_bit (MasterTranInh c) 1),
                   Xil_Out32 (SPI_BASEADDR c + SRR c) 0x0000000A,
                   Xil_Out32 (SPI_BASEADDR c + SPISSR c) 0xFFFFFFFF,
                   Xil_Out32 (SPI_BASEADDR c + SPICR c) (configValue OR push_bit (MasterTranInh c) 1)]"
    by (auto simp: SPI_Write_body_def out32_def Let_def and_not_or_mask
          split: prod.splits if_splits)
  moreover from mti have "bit (configValue OR push_bit (MasterTranInh c) 1) (MasterTranInh c)"
    by (simp add: bit_simps)
  ultimately show ?thesis
    using loop by (simp add: SPI_Write_def)
qed

text \<open>
  A peripheral whose status always has bit 0 clear never sends the call through the
  early return; one whose status always has bit 0 set sends every call with a byte to
  transfer through it.
\<close>

lemma SPI_Write_ready_completes:
  assumes ready: "\<forall>tr. dev tr (SPI_BASEADDR c + SPISR c) AND 1 \<noteq> 1"
  shows "\<not> SPI_Write_timed_out c dev configValue data0 n"
proof
  assume "SPI_Write_timed_out c dev configValue data0 n"
  then obtain k s where
    head: "SPI_Write_loop_head c dev n k (SPI_Write_entry c configValue data0) = Some s"
    and ex: "fst (snd (SPI_Write_poll c dev (timeout s) (io_trace s))) = - 1"
    unfolding SPI_Write_timed_out_iff by blast
  have "timeout (SPI_Write_entry c configValue data0) = 0xFFFF"
    by (simp add: SPI_Write_entry_def out32_def Let_def)
  from SPI_Write_heads_timeout[OF this head] have "timeout s = 0xFFFF" .
  moreover from ready have "fst (snd (SPI_Write_poll c dev (timeout s) (io_trace s))) = timeout s"
    by (simp add: SPI_Write_poll_ready)
  ultimately show False using ex by simp
qed

lemma SPI_Write_stalled_times_out:
  assumes cnt: "1 \<le> unat n"
    and stall: "\<forall>tr. dev tr (SPI_BASEADDR c + SPISR c) AND 1 = 1"
  shows "SPI_Write_timed_out c dev configValue data0 n"
proof (rule SPI_Write_head_exhausted)
  show "SPI_Write_loop_head c dev n 0 (SPI_Write_entry c configValue data0) =
          Some (SPI_Write_entry c configValue data0)"
    by simp
next
  from cnt have "0 < unat (ucast n :: u32)" by (simp add: unat_ucast_u8)
  then have "(0 :: u32) < ucast n" by (simp add: word_less_nat_alt)
  then show "txCnt (SPI_Write_entry c configValue data0) < ucast n"
    by (simp add: SPI_Write_entry_def out32_def Let_def)
next
  from stall show "fst (snd (SPI_Write_poll c dev (timeout (SPI_Write_entry c configValue data0))
      (io_trace (SPI_Write_entry c configValue data0)))) = - 1"
    by (intro SPI_Write_poll_stalled) simp
qed

lemma SPI_Write_slave_select_fixed:
  "take 2 (trace (SPI_Write c dev configValue slaveDeviceId data0 bytesNumber)) =
     [Xil_Out32 (SPI_BASEADDR c + SPICR c) configValue,
      Xil_Out32 (SPI_BASEADDR c + SPISSR c) 0xFFFFFFFE] \<and>
   SPI_Write c dev configValue slaveDeviceId data0 bytesNumber =
     SPI_Write c dev configValue 0 data0 bytesNumber"
proof -
  obtain r where r: "SPI_Write_loop c dev bytesNumber (SPI_Write_entry c configValue data0) = r"
    by simp
  from SPI_Write_loop_extends[OF r] obtain es where
    "io_trace (case r of Inl e \<Rightarrow> e | Inr s' \<Rightarrow> s') = io_trace (SPI_Write_entry c configValue data0) @ es" ..
  with r show ?thesis
    by (cases r) (simp_all add: SPI_Write_def SPI_Write_entry_def out32_def Let_def)
qed

subsection \<open>SPI\_Read is SPI\_Write\<close>

lemma SPI_Read_poll_eq: "SPI_Read_poll c dev tmo tr = SPI_Write_poll c dev tmo tr"
proof (induction c dev tmo tr rule: SPI_Write_poll.induct)
  case (1 c dev tmo tr)
  show ?case
    by (subst SPI_Read_poll.simps, subst SPI_Write_poll.simps) (use 1 in \<open>simp add: Let_def\<close>)
qed

lemma SPI_Read_body_eq: "SPI_Read_body c dev n s = SPI_Write_body c dev n s"
  by (simp add: SPI_Read_body_def SPI_Write_body_def SPI_Read_poll_eq)

lemma SPI_Read_loop_eq: "SPI_Read_loop c dev n s = SPI_Write_loop c dev n s"
proof (induction c dev n s rule: SPI_Write_loop.induct)
  case (1 c dev n s)
  show ?case
    by (subst SPI_Read_loop.simps, subst SPI_Write_loop.simps)
       (use 1 in \<open>auto simp: SPI_Read_body_eq split: sum.splits\<close>)
qed

lemma SPI_Read_loop_head_eq: "SPI_Read_loop_head c dev n k s = SPI_Write_loop_head c dev n k s"
  by (induction k arbitrary: s) (auto simp: SPI_Read_body_eq split: sum.splits)

subsection \<open>The wait and the loop of I2C\_Read\<close>








lemma I2C_Read_heads_timeout:
  "fst (snd s) = 0xFFFFFF \<Longrightarrow> I2C_Read_loop_head c dev n k s = Some s' \<Longrightarrow>
   fst (snd s') = 0xFFFFFF"
proof (induction k arbitrary: s)
  case 0
  then show ?case by simp
next
  case (Suc k)
  obtain rxc tmo b tr where s: "s = (rxc, tmo, b, tr)" by (cases s) auto
  from Suc.prems(2) s obtain s1 where b: "I2C_Read_body c dev (rxc, tmo, b, tr) = Inr s1"
    and h: "I2C_Read_loop_head c dev n k s1 = Some s'"
    by (auto split: if_splits sum.splits)
  from b have "fst (snd s1) = 0xFFFFFF"
    by (auto simp: Let_def split_beta split: if_splits)
  from Suc.IH[OF this h] show ?case .
qed


subsection \<open>The loop of I2C\_Write and SPI\_Init\<close>

lemma I2C_Write_loop_pushes:
  "txc \<le> ucast n \<Longrightarrow>
   I2C_Write_loop c n b txc tr =
     (ucast n,
      tr @ map (\<lambda>i. Xil_Out32 (I2C_BASEADDR c + TX_FIFO c)
                  (if Suc i = unat n then 0x200 OR ucast (b i) else ucast (b i)))
             [unat txc..<unat n])"
proof (induction c n b txc tr rule: I2C_Write_loop.induct)
  case (1 c n b txc tr)
  show ?case
  proof (cases "txc < ucast n")
    case False
    with "1.prems" have "txc = ucast n" by simp
    then show ?thesis
      by (subst I2C_Write_loop.simps) (simp add: unat_ucast_u8)
  next
    case True
    note succ = u32_succ_below[OF True]
    from True have lt: "unat txc < unat n"
      by (simp add: word_less_nat_alt unat_ucast_u8)
    have last: "txc = ucast n - 1 \<longleftrightarrow> Suc (unat txc) = unat n"
    proof
      assume "txc = ucast n - 1"
      then have "txc + 1 = ucast n" by simp
      then have "unat (txc + 1) = unat (ucast n :: u32)" by simp
      with succ(1) show "Suc (unat txc) = unat n" by (simp add: unat_ucast_u8)
    next
      assume "Suc (unat txc) = unat n"
      with succ(1) have "unat (txc + 1) = unat (ucast n :: u32)" by (simp add: unat_ucast_u8)
      then have "txc + 1 = ucast n" by (simp only: word_unat_eq_iff)
      then have "ucast n = txc + 1" by (rule sym)
      then show "txc = ucast n - 1" by simp
    qed
    from lt have upt: "[unat txc..<unat n] = unat txc # [Suc (unat txc)..<unat n]"
      by (simp add: upt_conv_Cons)
    from "1.IH"[OF True succ(2)] True succ(1) last upt show ?thesis
      by (subst I2C_Write_loop.simps) simp
  qed
qed

lemma SPI_Init_keeps_bit:
  "bit configValue n \<Longrightarrow> bit (fst (SPI_Init c configValue lsbFirst clockFreq clockPol clockEdg)) n"
  by (simp add: SPI_Init_def Let_def bit_simps)

section \<open>The claims\<close>

subsection \<open>SPI\_Write: the transfer that completes\<close>

text \<open>
  Claim C1. The claim says that a call of \<^verbatim>\<open>SPI_Write\<close> in which no status poll uses
  up its counter returns exactly \<^verbatim>\<open>bytesNumber\<close>, has filled the first \<^verbatim>\<open>bytesNumber\<close>
  bytes of the buffer with the values read from \<^verbatim>\<open>SPIDRR\<close> in order, and ends with the
  transaction-inhibit bit set and all ones in \<^verbatim>\<open>SPISSR\<close>. The buffer and the two final
  writes are as claimed for every \<^verbatim>\<open>bytesNumber\<close> (\<open>SPI_Write_completes\<close>). The returned
  value is not: the function returns \<^verbatim>\<open>char\<close>, so \<^verbatim>\<open>return bytesNumber\<close> gives
  \<open>sint bytesNumber\<close>, which is the count up to 127 and the count minus 256 from 128 on
  (\<open>sint_u8\<close>). Evaluated for 255 bytes and a peripheral that is always ready: no poll
  uses up its counter, the 255 bytes of the buffer are the values read, and the call
  returns \<open>-1\<close>, not 255. This is the value the function documents for a failed write,
  and the value the same call returns when the peripheral never gets ready.
\<close>

theorem SPI_Write_255_bytes_returns_minus_1:
  "\<not> SPI_Write_timed_out example_consts ready_dev 0x1D6 (\<lambda>i. 0) 255 \<and>
   map (buf (SPI_Write example_consts ready_dev 0x1D6 0 (\<lambda>i. 0) 255)) [0..<255] =
     map ucast (reads_of (SPI_BASEADDR example_consts + SPIDRR example_consts)
       (trace (SPI_Write example_consts ready_dev 0x1D6 0 (\<lambda>i. 0) 255))) \<and>
   ret (SPI_Write example_consts ready_dev 0x1D6 0 (\<lambda>i. 0) 255) = - 1 \<and>
   ret (SPI_Write example_consts ready_dev 0x1D6 0 (\<lambda>i. 0) 255) \<noteq> 255 \<and>
   ret (SPI_Write example_consts stalled_dev 0x1D6 0 (\<lambda>i. 0) 255) = - 1"
proof -
  have h1: "1 \<le> unat (255 :: u8)" by simp
  have h2: "SPISR example_consts \<noteq> SPIDRR example_consts"
    by (simp add: example_consts_def)
  have h3: "MasterTranInh example_consts < 32"
    by (simp add: example_consts_def)
  have h4: "\<not> SPI_Write_timed_out example_consts ready_dev 0x1D6 (\<lambda>i. 0) 255"
    by (rule SPI_Write_ready_completes) (simp add: ready_dev_def example_consts_def)
  have h5: "SPI_Write_timed_out example_consts stalled_dev 0x1D6 (\<lambda>i. 0) 255"
    by (rule SPI_Write_stalled_times_out) (simp_all add: stalled_dev_def)
  from SPI_Write_completes[OF h1 h2 h3 h4, of 0]
    SPI_Write_timed_out_recovery[OF h1 h3 h5, of 0] h4
  show ?thesis by simp
qed

subsection \<open>SPI\_Write: the timeout\<close>

text \<open>
  Claim C2. For every \<^verbatim>\<open>bytesNumber\<close> of at least 1, if after some number of complete
  passes the loop is at a head with a byte left and the status poll from there uses up
  its counter (it ends with the counter at \<open>0xFFFFFFFF\<close>, having started from
  \<open>0xFFFF\<close>), then \<^verbatim>\<open>SPI_Write\<close> returns \<open>-1\<close> and its last four calls are, in order:
  the configuration with the transaction-inhibit bit set written to \<^verbatim>\<open>SPICR\<close>,
  \<open>0x0000000A\<close> written to \<^verbatim>\<open>SRR\<close>, all ones written to \<^verbatim>\<open>SPISSR\<close>, and the same
  configuration word written to \<^verbatim>\<open>SPICR\<close> again.
\<close>

theorem SPI_Write_timeout_recovery:
  assumes cnt: "1 \<le> unat bytesNumber"
    and mti: "MasterTranInh c < 32"
    and head: "SPI_Write_loop_head c dev bytesNumber k (SPI_Write_entry c configValue data0) = Some s"
    and more: "txCnt s < ucast bytesNumber"
    and exhausted: "fst (snd (SPI_Write_poll c dev (timeout s) (io_trace s))) = - 1"
  shows "ret (SPI_Write c dev configValue slaveDeviceId data0 bytesNumber) = - 1 \<and>
         (\<exists>pre. trace (SPI_Write c dev configValue slaveDeviceId data0 bytesNumber) =
            pre @ [Xil_Out32 (SPI_BASEADDR c + SPICR c) (configValue OR push_bit (MasterTranInh c) 1),
                   Xil_Out32 (SPI_BASEADDR c + SRR c) 0x0000000A,
                   Xil_Out32 (SPI_BASEADDR c + SPISSR c) 0xFFFFFFFF,
                   Xil_Out32 (SPI_BASEADDR c + SPICR c) (configValue OR push_bit (MasterTranInh c) 1)]) \<and>
         bit (configValue OR push_bit (MasterTranInh c) 1) (MasterTranInh c)"
  using SPI_Write_timed_out_recovery[OF cnt mti SPI_Write_head_exhausted[OF head more exhausted]] .

theorem SPI_Write_timeout_recovery_witness:
  "1 \<le> unat (2 :: u8) \<and> MasterTranInh example_consts < 32 \<and>
   SPI_Write_loop_head example_consts (stalling_dev 9) 2 (Suc 0)
     (SPI_Write_entry example_consts 0x1D6 (\<lambda>i. 0)) = Some example_spi_head \<and>
   txCnt example_spi_head < ucast (2 :: u8) \<and>
   fst (snd (SPI_Write_poll example_consts (stalling_dev 9)
     (timeout example_spi_head) (io_trace example_spi_head))) = - 1 \<and>
   ret (SPI_Write example_consts (stalling_dev 9) 0x1D6 0 (\<lambda>i. 0) 2) = - 1 \<and>
   (\<exists>pre. trace (SPI_Write example_consts (stalling_dev 9) 0x1D6 0 (\<lambda>i. 0) 2) =
      pre @ [Xil_Out32 (SPI_BASEADDR example_consts + SPICR example_consts)
               (0x1D6 OR push_bit (MasterTranInh example_consts) 1),
             Xil_Out32 (SPI_BASEADDR example_consts + SRR example_consts) 0x0000000A,
             Xil_Out32 (SPI_BASEADDR example_consts + SPISSR example_consts) 0xFFFFFFFF,
             Xil_Out32 (SPI_BASEADDR example_consts + SPICR example_consts)
               (0x1D6 OR push_bit (MasterTranInh example_consts) 1)])"
proof -
  have h1: "1 \<le> unat (2 :: u8)" by simp
  have h2: "MasterTranInh example_consts < 32"
    by (simp add: example_consts_def)
  have h3: "SPI_Write_loop_head example_consts (stalling_dev 9) 2 (Suc 0)
     (SPI_Write_entry example_consts 0x1D6 (\<lambda>i. 0)) = Some example_spi_head"
    by (simp add: SPI_Write_body_def SPI_Write_poll.simps SPI_Write_entry_def out32_def Let_def
          example_consts_def stalling_dev_def ready_dev_def example_spi_head_def)
  have h4: "txCnt example_spi_head < ucast (2 :: u8)"
    by (simp add: example_spi_head_def)
  have h5: "fst (snd (SPI_Write_poll example_consts (stalling_dev 9)
     (timeout example_spi_head) (io_trace example_spi_head))) = - 1"
    by (rule SPI_Write_poll_stalled)
       (simp add: stalling_dev_def stalled_dev_def example_spi_head_def)
  from SPI_Write_timeout_recovery[OF h1 h2 h3 h4 h5, of 0] h1 h2 h3 h4 h5 show ?thesis
    by blast
qed

subsection \<open>I2C\_Read: the slave that stalls\<close>



subsection \<open>I2C\_Write\<close>

text \<open>
  Claim C4. For all arguments \<^verbatim>\<open>I2C_Write\<close> returns \<^verbatim>\<open>bytesNumber\<close> and leaves the
  buffer as it was. Its calls are: the reset and the enable of the core, a delay, the
  address command \<open>0x100 | (slaveAddress << 1)\<close> pushed to the transmit FIFO, then for
  each \<open>i\<close> below \<^verbatim>\<open>bytesNumber\<close> the byte \<open>dataBuffer[i]\<close> pushed to the transmit FIFO,
  the last one (\<open>i + 1 = bytesNumber\<close>) OR-ed with \<open>0x200\<close>, and a final delay. None of
  the calls reads a register: there is no poll, no timeout and no other way out.
\<close>

theorem I2C_Write_pushes:
  "I2C_Write c slaveAddress dataBuffer bytesNumber stopBit =
     \<lparr>ret = bytesNumber, buf = dataBuffer,
      trace = [Xil_Out32 (I2C_BASEADDR c + CR c) 0x002,
               Xil_Out32 (I2C_BASEADDR c + CR c) 0x001,
               TIME_DelayMs 10,
               Xil_Out32 (I2C_BASEADDR c + TX_FIFO c) (0x100 OR push_bit 1 (ucast slaveAddress))] @
              map (\<lambda>i. Xil_Out32 (I2C_BASEADDR c + TX_FIFO c)
                      (if Suc i = unat bytesNumber then 0x200 OR ucast (dataBuffer i)
                       else ucast (dataBuffer i)))
                [0..<unat bytesNumber] @
              [TIME_DelayMs 10]\<rparr> \<and>
   filter is_read (trace (I2C_Write c slaveAddress dataBuffer bytesNumber stopBit)) = []"
proof -
  have "ucast (ucast bytesNumber :: u32) = bytesNumber"
    by (rule ucast_up_ucast_id) (simp add: is_up)
  then show ?thesis
    by (simp add: I2C_Write_def I2C_Write_loop_pushes filter_empty_conv)
qed

theorem I2C_Write_pushes_witness:
  "ret (I2C_Write example_consts 0x50 (\<lambda>i. of_nat i + 0x10) 3 1) = 3 \<and>
   trace (I2C_Write example_consts 0x50 (\<lambda>i. of_nat i + 0x10) 3 1) =
     [Xil_Out32 0x40800100 2, Xil_Out32 0x40800100 1, TIME_DelayMs 10,
      Xil_Out32 0x40800108 0x1A0, Xil_Out32 0x40800108 0x10, Xil_Out32 0x40800108 0x11,
      Xil_Out32 0x40800108 0x212, TIME_DelayMs 10]"
proof -
  have "[0..<unat (3 :: u8)] = [0, 1, 2]"
    by (simp add: upt_rec)
  with I2C_Write_pushes[of example_consts "0x50" "\<lambda>i. of_nat i + 0x10" 3 1] show ?thesis
    by (simp add: example_consts_def)
qed

subsection \<open>The slave select of SPI\_Write\<close>

text \<open>
  Claim C5. The claim says that the value written to \<^verbatim>\<open>SPISSR\<close> at the start of the
  call clears the bit of the device named by \<^verbatim>\<open>slaveDeviceId\<close>. The code writes the
  constant \<^verbatim>\<open>~(0x00000001 << (0))\<close>, that is \<open>0xFFFFFFFE\<close>, whatever the argument is
  (\<open>SPI_Write_slave_select_fixed\<close>). Evaluated for \<^verbatim>\<open>slaveDeviceId = 2\<close>: the second call
  of the transfer writes \<open>0xFFFFFFFE\<close> to \<^verbatim>\<open>SPISSR\<close>, which selects the device on bit 0,
  and the whole call is the same as for \<^verbatim>\<open>slaveDeviceId = 0\<close>.
\<close>

theorem SPI_Write_slaveDeviceId_ignored:
  "trace (SPI_Write example_consts ready_dev 0x1D6 2 (\<lambda>i. 0x5A) 1) =
     [Xil_Out32 0x40A00060 0x1D6, Xil_Out32 0x40A00070 0xFFFFFFFE, Xil_Out32 0x40A00068 0x5A,
      Xil_Out32 0x40A00060 0xD6, Xil_In32 0x40A00064 0, Xil_In32 0x40A0006C 5,
      Xil_Out32 0x40A00060 0x1D6, Xil_Out32 0x40A00070 0xFFFFFFFF] \<and>
   SPI_Write example_consts ready_dev 0x1D6 2 (\<lambda>i. 0x5A) 1 =
     SPI_Write example_consts ready_dev 0x1D6 0 (\<lambda>i. 0x5A) 1"
proof -
  have "trace (SPI_Write example_consts ready_dev 0x1D6 2 (\<lambda>i. 0x5A) 1) =
     [Xil_Out32 0x40A00060 0x1D6, Xil_Out32 0x40A00070 0xFFFFFFFE, Xil_Out32 0x40A00068 0x5A,
      Xil_Out32 0x40A00060 0xD6, Xil_In32 0x40A00064 0, Xil_In32 0x40A0006C 5,
      Xil_Out32 0x40A00060 0x1D6, Xil_Out32 0x40A00070 0xFFFFFFFF]"
    by (simp add: SPI_Write_def SPI_Write_loop.simps SPI_Write_body_def
          SPI_Write_poll.simps SPI_Write_entry_def out32_def Let_def example_consts_def ready_dev_def)
  with SPI_Write_slave_select_fixed[of example_consts ready_dev "0x1D6" 2 "\<lambda>i. 0x5A" 1]
  show ?thesis by simp
qed

subsection \<open>The counter of the wait\<close>

text \<open>
  Claim C6. Whenever the loop of \<^verbatim>\<open>SPI_Write\<close>, of \<^verbatim>\<open>SPI_Read\<close> or of \<^verbatim>\<open>I2C_Read\<close> is at
  its head, after any number \<open>k\<close> of complete passes, \<^verbatim>\<open>timeout\<close> holds the ceiling:
  \<open>0xFFFF\<close> in the two SPI functions, \<open>0xFFFFFF\<close> in \<^verbatim>\<open>I2C_Read\<close>. The wait for the next
  byte starts from this value, never from what the previous wait left.
\<close>

theorem timeout_reset_each_byte:
  "(SPI_Write_loop_head c dev bytesNumber k (SPI_Write_entry c configValue data0) = Some s
      \<longrightarrow> timeout s = 0xFFFF) \<and>
   (SPI_Read_loop_head c dev bytesNumber k (SPI_Read_entry c configValue data0) = Some s'
      \<longrightarrow> timeout s' = 0xFFFF) \<and>
   (I2C_Read_loop_head c dev bytesNumber k (I2C_Read_entry c slaveAddress dataBuffer bytesNumber) =
      Some (rxc, tmo, dataBuffer', tr) \<longrightarrow> tmo = 0xFFFFFF)"
proof (intro conjI impI)
  assume "SPI_Write_loop_head c dev bytesNumber k (SPI_Write_entry c configValue data0) = Some s"
  moreover have "timeout (SPI_Write_entry c configValue data0) = 0xFFFF"
    by (simp add: SPI_Write_entry_def out32_def Let_def)
  ultimately show "timeout s = 0xFFFF"
    by (rule SPI_Write_heads_timeout[rotated])
next
  assume "SPI_Read_loop_head c dev bytesNumber k (SPI_Read_entry c configValue data0) = Some s'"
  then have "SPI_Write_loop_head c dev bytesNumber k (SPI_Read_entry c configValue data0) = Some s'"
    by (simp add: SPI_Read_loop_head_eq)
  moreover have "timeout (SPI_Read_entry c configValue data0) = 0xFFFF"
    by (simp add: SPI_Read_entry_def out32_def Let_def)
  ultimately show "timeout s' = 0xFFFF"
    by (rule SPI_Write_heads_timeout[rotated])
next
  assume "I2C_Read_loop_head c dev bytesNumber k (I2C_Read_entry c slaveAddress dataBuffer bytesNumber) =
      Some (rxc, tmo, dataBuffer', tr)"
  moreover have "fst (snd (I2C_Read_entry c slaveAddress dataBuffer bytesNumber)) = 0xFFFFFF"
    by (simp add: I2C_Read_entry_def)
  ultimately have "fst (snd (rxc, tmo, dataBuffer', tr)) = 0xFFFFFF"
    by (rule I2C_Read_heads_timeout[rotated])
  then show "tmo = 0xFFFFFF" by simp
qed

theorem timeout_reset_each_byte_witness:
  "SPI_Write_loop_head example_consts (stalling_dev 9) 2 (Suc 0)
     (SPI_Write_entry example_consts 0x1D6 (\<lambda>i. 0)) = Some example_spi_head \<and>
   timeout example_spi_head = 0xFFFF \<and>
   SPI_Read_loop_head example_consts (stalling_dev 9) 2 (Suc 0)
     (SPI_Read_entry example_consts 0x1D6 (\<lambda>i. 0)) = Some example_spi_head \<and>
   I2C_Read_loop_head example_consts (stalling_dev 7) 2 (Suc 0)
     (I2C_Read_entry example_consts 0x50 (\<lambda>i. 0) 2) =
     Some (1, 0xFFFFFF, (\<lambda>i. 0)(0 := 6), example_i2c_calls)"
proof -
  have h1: "SPI_Write_loop_head example_consts (stalling_dev 9) 2 (Suc 0)
     (SPI_Write_entry example_consts 0x1D6 (\<lambda>i. 0)) = Some example_spi_head"
    by (simp add: SPI_Write_body_def SPI_Write_poll.simps SPI_Write_entry_def out32_def Let_def
          example_consts_def stalling_dev_def ready_dev_def example_spi_head_def)
  have h2: "SPI_Read_loop_head example_consts (stalling_dev 9) 2 (Suc 0)
     (SPI_Read_entry example_consts 0x1D6 (\<lambda>i. 0)) = Some example_spi_head"
    by (simp add: SPI_Read_body_def SPI_Read_poll.simps SPI_Read_entry_def out32_def Let_def
          example_consts_def stalling_dev_def ready_dev_def example_spi_head_def)
  have h3: "I2C_Read_loop_head example_consts (stalling_dev 7) 2 (Suc 0)
     (I2C_Read_entry example_consts 0x50 (\<lambda>i. 0) 2) =
     Some (1, 0xFFFFFF, (\<lambda>i. 0)(0 := 6), example_i2c_calls)"
    by (simp add: I2C_Read_entry_def I2C_Read_poll.simps Let_def
          example_consts_def stalling_dev_def ready_dev_def example_i2c_calls_def)
  from timeout_reset_each_byte[of example_consts "stalling_dev 9" 2 "Suc 0" "0x1D6" "\<lambda>i. 0"
      example_spi_head example_spi_head] h1 h2 h3
  show ?thesis by blast
qed

subsection \<open>The stop bit of the I2C functions\<close>

text \<open>
  Claim C7. \<^verbatim>\<open>I2C_Read\<close> and \<^verbatim>\<open>I2C_Write\<close> do not look at \<^verbatim>\<open>stopBit\<close>: for every
  slave address, buffer, length and peripheral, two values of \<^verbatim>\<open>stopBit\<close> (0 and 1
  among them) give the same returned value, the same buffer and the same calls.
\<close>

theorem stopBit_no_effect:
  "I2C_Read c dev slaveAddress dataBuffer bytesNumber stopBit =
     I2C_Read c dev slaveAddress dataBuffer bytesNumber stopBit' \<and>
   I2C_Write c slaveAddress dataBuffer bytesNumber stopBit =
     I2C_Write c slaveAddress dataBuffer bytesNumber stopBit'"
  by (simp add: I2C_Read_def I2C_Write_def)

theorem stopBit_no_effect_witness:
  "I2C_Read example_consts ready_dev 0x50 (\<lambda>i. 0) 2 0 =
     I2C_Read example_consts ready_dev 0x50 (\<lambda>i. 0) 2 1 \<and>
   I2C_Write example_consts 0x50 (\<lambda>i. 0) 2 0 = I2C_Write example_consts 0x50 (\<lambda>i. 0) 2 1"
  by (rule stopBit_no_effect)

subsection \<open>SPI\_Write with no byte to send\<close>

text \<open>
  Claim C8. With \<^verbatim>\<open>bytesNumber = 0\<close> the call ends for every peripheral (the model is
  a total function) and makes exactly six register writes and no read: the four writes
  before the loop, among them \<^verbatim>\<open>data[0]\<close> to the transmit register, and the two after
  it. The loop makes no pass, the early return is not taken, and the result is 0.
\<close>

theorem SPI_Write_count_zero:
  "SPI_Write c dev configValue slaveDeviceId data0 0 =
     \<lparr>ret = 0, buf = data0,
      trace = [Xil_Out32 (SPI_BASEADDR c + SPICR c) configValue,
               Xil_Out32 (SPI_BASEADDR c + SPISSR c) 0xFFFFFFFE,
               Xil_Out32 (SPI_BASEADDR c + SPIDTR c) (ucast (data0 0)),
               Xil_Out32 (SPI_BASEADDR c + SPICR c) (configValue AND NOT (push_bit (MasterTranInh c) 1)),
               Xil_Out32 (SPI_BASEADDR c + SPICR c) (configValue OR push_bit (MasterTranInh c) 1),
               Xil_Out32 (SPI_BASEADDR c + SPISSR c) 0xFFFFFFFF]\<rparr> \<and>
   SPI_Write_loop_head c dev 0 (Suc 0) (SPI_Write_entry c configValue data0) = None \<and>
   \<not> SPI_Write_timed_out c dev configValue data0 0"
  by (simp add: SPI_Write_def SPI_Write_timed_out_def SPI_Write_loop.simps SPI_Write_entry_def
        out32_def Let_def and_not_or_mask)

theorem SPI_Write_count_zero_witness:
  "ret (SPI_Write example_consts stalled_dev 0x1D6 0 (\<lambda>i. 0x5A) 0) = 0 \<and>
   trace (SPI_Write example_consts stalled_dev 0x1D6 0 (\<lambda>i. 0x5A) 0) =
     [Xil_Out32 0x40A00060 0x1D6, Xil_Out32 0x40A00070 0xFFFFFFFE, Xil_Out32 0x40A00068 0x5A,
      Xil_Out32 0x40A00060 0xD6, Xil_Out32 0x40A00060 0x1D6, Xil_Out32 0x40A00070 0xFFFFFFFF]"
  using SPI_Write_count_zero[of example_consts stalled_dev "0x1D6" 0 "\<lambda>i. 0x5A"]
  by (simp add: example_consts_def)

subsection \<open>SPI\_Read and SPI\_Write\<close>

text \<open>
  Claim C9. \<^verbatim>\<open>SPI_Read\<close> and \<^verbatim>\<open>SPI_Write\<close>, each translated from its own text, are the
  same function: for all arguments and every peripheral they return the same value,
  leave the same buffer and make the same calls, reads and writes, in the same order.
\<close>

theorem SPI_Read_eq_SPI_Write:
  "SPI_Read c dev configValue slaveDeviceId data0 bytesNumber =
   SPI_Write c dev configValue slaveDeviceId data0 bytesNumber"
  by (simp add: SPI_Read_def SPI_Write_def SPI_Read_entry_def SPI_Write_entry_def SPI_Read_loop_eq)

theorem SPI_Read_eq_SPI_Write_witness:
  "SPI_Read example_consts ready_dev 0x1D6 0 (\<lambda>i. 0) 2 =
   SPI_Write example_consts ready_dev 0x1D6 0 (\<lambda>i. 0) 2"
  by (rule SPI_Read_eq_SPI_Write)

subsection \<open>SPI\_Init and the configuration word\<close>

text \<open>
  Claim C10. \<^verbatim>\<open>SPI_Init\<close> only ORs bits into \<^verbatim>\<open>configValue\<close>: a bit that is set before
  a sequence of calls of \<^verbatim>\<open>SPI_Init\<close> is set after it, whatever the arguments of the
  calls. So a call with \<^verbatim>\<open>lsbFirst = 0\<close>, \<^verbatim>\<open>clockPol = 0\<close> or \<^verbatim>\<open>clockEdg = 1\<close> does
  not clear the bit an earlier call has set.
\<close>

theorem SPI_Init_never_clears:
  "bit configValue n \<Longrightarrow> bit (SPI_Init_calls c configValue calls) n"
proof (induction calls arbitrary: configValue)
  case Nil
  then show ?case by simp
next
  case (Cons call calls)
  obtain lsbFirst clockFreq clockPol clockEdg where
    call: "call = (lsbFirst, clockFreq, clockPol, clockEdg)"
    by (cases call) auto
  from Cons.prems have "bit (fst (SPI_Init c configValue lsbFirst clockFreq clockPol clockEdg)) n"
    by (rule SPI_Init_keeps_bit)
  from Cons.IH[OF this] call show ?case by simp
qed

theorem SPI_Init_never_clears_witness:
  "fst (SPI_Init example_consts 0 1 1000000 1 0) = 0x3DE \<and>
   bit (0x3DE :: u32) 9 \<and> bit (0x3DE :: u32) 4 \<and> bit (0x3DE :: u32) 3 \<and>
   bit (SPI_Init_calls example_consts 0x3DE [(0, 1000000, 0, 1)]) 9 \<and>
   bit (SPI_Init_calls example_consts 0x3DE [(0, 1000000, 0, 1)]) 4 \<and>
   bit (SPI_Init_calls example_consts 0x3DE [(0, 1000000, 0, 1)]) 3"
proof -
  have e: "fst (SPI_Init example_consts 0 1 1000000 1 0) = 0x3DE"
    by (simp add: SPI_Init_def SPI_Init_bits_def example_consts_def Let_def)
  have b9: "bit (0x3DE :: u32) 9" and b4: "bit (0x3DE :: u32) 4" and b3: "bit (0x3DE :: u32) 3"
    by simp_all
  from e b9 b4 b3
    SPI_Init_never_clears[OF b9, of example_consts "[(0, 1000000, 0, 1)]"]
    SPI_Init_never_clears[OF b4, of example_consts "[(0, 1000000, 0, 1)]"]
    SPI_Init_never_clears[OF b3, of example_consts "[(0, 1000000, 0, 1)]"]
  show ?thesis by blast
qed

end
